theory Spec2Isabelle
  imports Main
begin

section \<open>Exceptions of lib/cli/daemoncontrol.cpp\<close>

text \<open>
  The catch clauses of the file tell five classes of thrown objects apart.
  \<open>TerminateDaemonControl\<close>, \<open>boost::system::system_error\<close> and
  \<open>std::invalid_argument\<close> derive from \<open>std::exception\<close>;
  \<open>boost::coroutines::detail::forced_unwind\<close> does not. A
  \<open>system_error\<close> carries its error code and its \<open>what()\<close> text.
\<close>

datatype category = system_category | generic_category | asio_misc_category | beast_http_category

datatype error_code = ErrorCode nat category

datatype exn =
    TerminateDaemonControl
  | forced_unwind
  | system_error error_code string
  | invalid_argument string
  | std_exception string

fun is_std_exception :: "exn \<Rightarrow> bool" where
  "is_std_exception forced_unwind = False"
| "is_std_exception _ = True"

fun what :: "exn \<Rightarrow> string" where
  "what TerminateDaemonControl = ''std::exception''"
| "what forced_unwind = []"
| "what (system_error c m) = m"
| "what (invalid_argument m) = m"
| "what (std_exception m) = m"

text \<open>\<open>boost::system::errc::broken_pipe\<close> is \<open>EPIPE\<close>, 32 on the POSIX targets the
  file is compiled for (\<open>#ifndef _WIN32\<close>).\<close>

definition l_EPipe :: error_code where
  "l_EPipe = ErrorCode 32 system_category"

section \<open>The service lifecycle manager\<close>

datatype fork_event = fork_prepare | fork_parent | fork_child

text \<open>Every externally visible action of the lifecycle calls, in the order performed.\<close>

datatype effect =
    AcceptorOpen
  | Unlink string
  | AcceptorBind string
  | Chmod string nat
  | AcceptorListen
  | SpawnAcceptLoop
  | ThreadLaunch
  | PostTerminate
  | ThreadJoin
  | AcceptorClose
  | NotifyFork fork_event
  | Destroy
  | Construct

record acceptor =
  is_open :: bool
  bound_path :: "string option"
  listening :: bool

record DaemonControl =
  m_Acceptor :: acceptor
  m_Thread :: bool
  m_WasRunningBeforeFork :: bool

text \<open>
  \<open>m_Thread\<close> is the joinable flag of the \<open>std::thread\<close> handle. The process around
  the object: the socket files on disk with their permission bits, and the trace of effects.
\<close>

record world =
  obj :: DaemonControl
  fs :: "string \<rightharpoonup> nat"
  effects :: "effect list"

text \<open>A call returns, throws (leaving the state it had reached), or ends in
  \<open>std::terminate\<close>, after which there is no process.\<close>

datatype outcome = Returns world | Throws exn world | Terminates

definition emit :: "effect \<Rightarrow> world \<Rightarrow> world" where
  "emit e w = w\<lparr>effects := effects w @ [e]\<rparr>"

definition closed_acceptor :: acceptor where
  "closed_acceptor = \<lparr>is_open = False, bound_path = None, listening = False\<rparr>"

text \<open>Modelled from the spec: the constructor of \<open>DaemonControl\<close> is declared in
  cli/daemoncontrol.hpp, which is not among the sources; the spec calls its result the
  freshly-initialized (unstarted) state: no thread, the was-running flag false, the
  acceptor not open.\<close>

definition fresh :: DaemonControl where
  "fresh = \<lparr>m_Acceptor = closed_acceptor, m_Thread = False, m_WasRunningBeforeFork = False\<rparr>"

definition new_world :: world where
  "new_world = \<lparr>obj = fresh, fs = Map.empty, effects = []\<rparr>"

text \<open>\<open>Configuration::InitRunDir + "/icinga2.s"\<close>; the run directory is configuration.\<close>

definition socket_path :: "string \<Rightarrow> string" where
  "socket_path InitRunDir = InitRunDir @ ''/icinga2.s''"

text \<open>Error codes thrown by the library calls of the lifecycle: \<open>EINVAL\<close> (22) from
  \<open>std::thread::join\<close> on a handle that is not joinable, \<open>EBADF\<close> (9) from
  \<open>local_endpoint\<close> on a closed acceptor, \<open>already_open\<close> (asio misc error 1) from
  \<open>open\<close>, and the OS error of a refused \<open>bind\<close>.\<close>

definition join_error :: exn where
  "join_error = std_exception ''Invalid argument''"

definition bad_descriptor :: exn where
  "bad_descriptor = system_error (ErrorCode 9 system_category) ''local_endpoint: Bad file descriptor''"

definition already_open :: exn where
  "already_open = system_error (ErrorCode 1 asio_misc_category) ''open: Already open''"

definition bind_error :: exn where
  "bind_error = system_error (ErrorCode 13 system_category) ''bind: Permission denied''"

definition set_acceptor :: "acceptor \<Rightarrow> world \<Rightarrow> world" where
  "set_acceptor a w = w\<lparr>obj := (obj w)\<lparr>m_Acceptor := a\<rparr>\<rparr>"

definition set_thread :: "bool \<Rightarrow> world \<Rightarrow> world" where
  "set_thread t w = w\<lparr>obj := (obj w)\<lparr>m_Thread := t\<rparr>\<rparr>"

definition set_flag :: "bool \<Rightarrow> world \<Rightarrow> world" where
  "set_flag b w = w\<lparr>obj := (obj w)\<lparr>m_WasRunningBeforeFork := b\<rparr>\<rparr>"

text \<open>
  \<open>DaemonControl::Start\<close>. \<open>bind_ok\<close> is the operating system's answer to \<open>bind\<close>;
  \<open>open\<close> throws on an acceptor that is already open; assigning a new thread to a
  joinable \<open>std::thread\<close> calls \<open>std::terminate\<close>. The socket file appears with the
  permission bits 0755 (493) and \<open>chmod\<close> sets 0700 (448).
\<close>

definition Start :: "string \<Rightarrow> bool \<Rightarrow> world \<Rightarrow> outcome" where
  "Start InitRunDir bind_ok w =
    (let socket = socket_path InitRunDir in
     if is_open (m_Acceptor (obj w)) then Throws already_open w
     else
       let w1 = emit AcceptorOpen (set_acceptor ((m_Acceptor (obj w))\<lparr>is_open := True\<rparr>) w);
           w2 = emit (Unlink socket) (w1\<lparr>fs := (fs w1)(socket := None)\<rparr>)
       in if \<not> bind_ok then Throws bind_error w2
          else
            let w3 = emit (AcceptorBind socket)
                       (set_acceptor ((m_Acceptor (obj w2))\<lparr>bound_path := Some socket\<rparr>)
                          (w2\<lparr>fs := (fs w2)(socket \<mapsto> 493)\<rparr>));
                w4 = emit (Chmod socket 448) (w3\<lparr>fs := (fs w3)(socket \<mapsto> 448)\<rparr>);
                w5 = emit AcceptorListen
                       (set_acceptor ((m_Acceptor (obj w4))\<lparr>listening := True\<rparr>) w4);
                w6 = emit SpawnAcceptLoop w5
            in if m_Thread (obj w6) then Terminates
               else Returns (set_flag True (emit ThreadLaunch (set_thread True w6))))"

text \<open>
  \<open>DaemonControl::Stop\<close>. \<open>join\<close> on a handle that is not joinable throws, after
  the flag has been cleared and the cancellation posted.
\<close>

definition Stop :: "world \<Rightarrow> outcome" where
  "Stop w =
    (let w1 = emit PostTerminate (set_flag False w) in
     if \<not> m_Thread (obj w1) then Throws join_error w1
     else
       let w2 = emit ThreadJoin (set_thread False w1) in
       if \<not> is_open (m_Acceptor (obj w2)) then Throws bad_descriptor w2
       else
         let socket = (case bound_path (m_Acceptor (obj w2)) of None \<Rightarrow> [] | Some p \<Rightarrow> p);
             w3 = emit AcceptorClose (set_acceptor closed_acceptor w2)
         in Returns (emit (Unlink socket) (w3\<lparr>fs := (fs w3)(socket := None)\<rparr>)))"

definition BeforeFork :: "world \<Rightarrow> outcome" where
  "BeforeFork w =
    (if m_WasRunningBeforeFork (obj w) then
       (let w1 = emit PostTerminate w in
        if \<not> m_Thread (obj w1) then Throws join_error w1
        else Returns (emit (NotifyFork fork_prepare) (emit ThreadJoin (set_thread False w1))))
     else Returns (emit (NotifyFork fork_prepare) w))"

text \<open>
  \<open>DaemonControl::~DaemonControl\<close> followed by the destructors of the members: an
  exception leaving \<open>Stop\<close> inside the destructor ends in \<open>std::terminate\<close>; the
  acceptor's destructor closes the descriptor without touching the path.
\<close>

definition destroy :: "world \<Rightarrow> outcome" where
  "destroy w =
    (let r = (if m_Thread (obj w) then Stop w else Returns w) in
     case r of
       Returns w1 \<Rightarrow>
         Returns (emit Destroy
           (if is_open (m_Acceptor (obj w1))
            then emit AcceptorClose (set_acceptor closed_acceptor w1) else w1))
     | Throws e w1 \<Rightarrow> Terminates
     | Terminates \<Rightarrow> Terminates)"

definition AfterFork :: "bool \<Rightarrow> world \<Rightarrow> outcome" where
  "AfterFork parent w =
    (let w1 = emit (NotifyFork (if parent then fork_parent else fork_child)) w in
     if m_WasRunningBeforeFork (obj w1) then
       (if parent then
          (if m_Thread (obj w1) then Terminates
           else Returns (emit ThreadLaunch (set_thread True w1)))
        else
          (case destroy w1 of
             Returns w2 \<Rightarrow> Returns (emit Construct (w2\<lparr>obj := fresh\<rparr>))
           | Throws e w2 \<Rightarrow> Terminates
           | Terminates \<Rightarrow> Terminates))
     else Returns w1)"

text \<open>Sequences of lifecycle calls on one object; a thrown exception is caught by the
  caller and the object lives on, \<open>std::terminate\<close> ends the sequence.\<close>

datatype call = CallStart bool | CallStop | CallBeforeFork | CallAfterFork bool

fun do_call :: "string \<Rightarrow> call \<Rightarrow> world \<Rightarrow> outcome" where
  "do_call d (CallStart bind_ok) w = Start d bind_ok w"
| "do_call d CallStop w = Stop w"
| "do_call d CallBeforeFork w = BeforeFork w"
| "do_call d (CallAfterFork parent) w = AfterFork parent w"

fun run_calls :: "string \<Rightarrow> call list \<Rightarrow> world \<Rightarrow> world option" where
  "run_calls d [] w = Some w"
| "run_calls d (c # cs) w =
     (case do_call d c w of
        Returns w' \<Rightarrow> run_calls d cs w'
      | Throws e w' \<Rightarrow> run_calls d cs w'
      | Terminates \<Rightarrow> None)"

text \<open>Three observations of a state: thread joinable, flag set, acceptor open.\<close>

definition thread_flag_socket :: "world \<Rightarrow> bool \<times> bool \<times> bool" where
  "thread_flag_socket w =
     (m_Thread (obj w), m_WasRunningBeforeFork (obj w), is_open (m_Acceptor (obj w)))"

text \<open>Whether a sequence of calls leaves a \<open>BeforeFork\<close> that no \<open>AfterFork\<close> has
  followed yet (the window of the fork protocol).\<close>

fun fork_pending :: "bool \<Rightarrow> call list \<Rightarrow> bool" where
  "fork_pending p [] = p"
| "fork_pending p (CallBeforeFork # cs) = fork_pending True cs"
| "fork_pending p (CallAfterFork parent # cs) = fork_pending False cs"
| "fork_pending p (c # cs) = fork_pending p cs"

definition lifecycle_inv :: "bool \<Rightarrow> world \<Rightarrow> bool" where
  "lifecycle_inv p w =
     ((m_Thread (obj w) \<longrightarrow> m_WasRunningBeforeFork (obj w)) \<and>
      (m_WasRunningBeforeFork (obj w) \<longrightarrow> is_open (m_Acceptor (obj w))) \<and>
      (m_WasRunningBeforeFork (obj w) \<and> \<not> m_Thread (obj w) \<longrightarrow> p))"

text \<open>A service started on \<open>/run/icinga2\<close>, and the same service after \<open>BeforeFork\<close>.\<close>

definition started :: world where
  "started = (case Start ''/run/icinga2'' True new_world of Returns w \<Rightarrow> w | _ \<Rightarrow> new_world)"

definition prepared :: world where
  "prepared = (case BeforeFork started of Returns w \<Rightarrow> w | _ \<Rightarrow> new_world)"

section \<open>The event-loop driver\<close>

datatype severity = LogDebug | LogNotice | LogInformation | LogWarning | LogCritical

record log_entry =
  level :: severity
  facility :: string
  message :: string

definition Log :: "severity \<Rightarrow> string \<Rightarrow> string \<Rightarrow> log_entry" where
  "Log l f m = \<lparr>level = l, facility = f, message = m\<rparr>"

text \<open>One call of \<open>m_IO.run()\<close> returns or throws.\<close>

datatype run_result = run_returns | run_throws exn

text \<open>How the thread function ends: it returns, an exception leaves it (which
  \<open>std::thread\<close> answers with \<open>std::terminate\<close>), or the thread is still inside
  \<open>run()\<close> when the given history of results is used up.\<close>

datatype thread_end = ThreadExited | ThreadAborted exn | ThreadInRun

text \<open>
  \<open>DaemonControl::RunEventLoop\<close> over the successive results of \<open>m_IO.run()\<close>.
  \<open>DiagnosticInformation\<close> (base/exception.hpp, not among the sources) is the
  parameter \<open>di\<close>.
\<close>

fun RunEventLoop :: "(exn \<Rightarrow> string) \<Rightarrow> run_result list \<Rightarrow> log_entry list \<times> thread_end" where
  "RunEventLoop di [] = ([], ThreadInRun)"
| "RunEventLoop di (run_returns # rs) = ([], ThreadExited)"
| "RunEventLoop di (run_throws e # rs) =
     (if e = TerminateDaemonControl then ([], ThreadExited)
      else if is_std_exception e then
        (let (logs, r) = RunEventLoop di rs in
         (Log LogCritical ''DaemonControl'' ''Exception during I/O operation!'' #
          Log LogDebug ''DaemonControl'' (''Exception during I/O operation: '' @ di e) #
          logs, r))
      else ([], ThreadAborted e))"


section \<open>HTTP messages\<close>

datatype field = f_connection | f_server | f_user_agent | f_other string

text \<open>The request of the parser: \<open>version\<close> is 10 for HTTP/1.0 and 11 for HTTP/1.1.
  \<open>request[name]\<close> is the first value of the field, or the empty string.\<close>

record request =
  version :: nat
  method_string :: string
  target :: string
  header_fields :: "(field \<times> string) list"
  body :: string

definition field_value :: "request \<Rightarrow> field \<Rightarrow> string" where
  "field_value r f = (case map_of (header_fields r) f of None \<Rightarrow> [] | Some v \<Rightarrow> v)"

text \<open>The body of a response is kept as the JSON value handed to the encoder; the wire
  encoding is outside this file.\<close>

datatype json = JInt int | JString string | JObject "(string \<times> json) list"

record response =
  result :: nat
  rfields :: "(field \<times> string) list"
  rbody :: "json option"

text \<open>A default-constructed \<open>http::response\<close>: status 200, no fields, empty body.\<close>

definition empty_response :: response where
  "empty_response = \<lparr>result = 200, rfields = [], rbody = None\<rparr>"

text \<open>\<open>response.set(name, value)\<close> replaces every field of that name.\<close>

definition set_field :: "field \<Rightarrow> string \<Rightarrow> response \<Rightarrow> response" where
  "set_field f v r = r\<lparr>rfields := (f, v) # filter (\<lambda>kv. fst kv \<noteq> f) (rfields r)\<rparr>"

definition get_field :: "response \<Rightarrow> field \<Rightarrow> string option" where
  "get_field r f = map_of (rfields r) f"

text \<open>Modelled from the spec: \<open>HttpUtility::SendJsonBody\<close> (remote/httputility.hpp) is
  not among the sources; the spec treats it as the capability that makes the given value the
  JSON body of the response.\<close>

definition SendJsonBody :: "response \<Rightarrow> json \<Rightarrow> response" where
  "SendJsonBody r v = r\<lparr>rbody := Some v\<rparr>"

text \<open>Modelled from the spec: \<open>HttpUtility::SendJsonError\<close> is not among the sources;
  by the spec it sets the numeric status and produces the envelope
  \<open>{"error": code, "status": message}\<close>, with an additional diagnostic field when
  diagnostic text is given.\<close>

definition SendJsonError :: "response \<Rightarrow> nat \<Rightarrow> string \<Rightarrow> string \<Rightarrow> response" where
  "SendJsonError r code info diagnosticInformation =
     SendJsonBody (r\<lparr>result := code\<rparr>)
       (JObject ([(''error'', JInt (int code)), (''status'', JString info)] @
          (if diagnosticInformation = [] then []
           else [(''diagnostic_information'', JString diagnosticInformation)])))"

section \<open>The peer and the stream\<close>

text \<open>
  What one request/response exchange meets on the socket: the bytes the peer sends
  (\<open>header_bytes\<close> is the size of the header section, \<open>content_length\<close> the declared
  body size if any, \<open>sent\<close> the message as a conforming parser reads it), an exception
  thrown while the header or the body is read (a transport error, a syntax error, or the
  unwinding of the coroutine), what building the 404 answer raises, and the results of
  \<open>async_write\<close> and \<open>async_flush\<close>.
\<close>

record exchange =
  header_bytes :: nat
  content_length :: "nat option"
  sent :: request
  header_fault :: "exn option"
  body_fault :: "exn option"
  handler_raises :: "exn option"
  write_fault :: "exn option"
  flush_fault :: "exn option"

record parser =
  header_limit :: nat
  body_limit :: nat

text \<open>Codes 8 and 9 of \<open>boost::beast::http::error\<close>.\<close>

definition header_limit_error :: exn where
  "header_limit_error = system_error (ErrorCode 8 beast_http_category) ''header limit exceeded''"

definition body_limit_error :: exn where
  "body_limit_error = system_error (ErrorCode 9 beast_http_category) ''body limit exceeded''"

text \<open>
  \<open>http::async_read_header\<close> and \<open>http::async_read\<close> of Boost.Beast, by their
  documented contract: an error of the stream or of the syntax is thrown as it comes; a
  header section larger than \<open>header_limit\<close> gives \<open>header_limit\<close>; a body larger than
  \<open>body_limit\<close> gives \<open>body_limit\<close>, already with the header when
  \<open>Content-Length\<close> announces it.
\<close>

definition async_read_header :: "parser \<Rightarrow> exchange \<Rightarrow> exn + request" where
  "async_read_header p x =
     (case header_fault x of
        Some e \<Rightarrow> Inl e
      | None \<Rightarrow>
          if header_limit p < header_bytes x then Inl header_limit_error
          else if (case content_length x of None \<Rightarrow> False | Some n \<Rightarrow> body_limit p < n)
          then Inl body_limit_error
          else Inr ((sent x)\<lparr>body := []\<rparr>))"

definition async_read :: "parser \<Rightarrow> exchange \<Rightarrow> exn + request" where
  "async_read p x =
     (case body_fault x of
        Some e \<Rightarrow> Inl e
      | None \<Rightarrow>
          if body_limit p < length (body (sent x)) then Inl body_limit_error
          else Inr (sent x))"

text \<open>What a connection task does on its stream, in order.\<close>

datatype conn_event =
    ReadHeader
  | ReadBody
  | Logged log_entry
  | Write response
  | Flush

text \<open>A step of the task: the events so far and either an exception in flight or a value.\<close>

type_synonym 'a io = "conn_event list \<times> (exn + 'a)"

text \<open>\<open>http::async_write(stream, response, yc); stream.async_flush(yc);\<close>\<close>

definition write_and_flush :: "exchange \<Rightarrow> response \<Rightarrow> unit io" where
  "write_and_flush x r =
     (case write_fault x of
        Some e \<Rightarrow> ([Write r], Inl e)
      | None \<Rightarrow>
          (case flush_fault x of
             Some e \<Rightarrow> ([Write r, Flush], Inl e)
           | None \<Rightarrow> ([Write r, Flush], Inr ())))"


section \<open>The connection task\<close>

text \<open>The 400 answer that \<open>EnsureValidHeaders\<close> and \<open>EnsureValidBody\<close> both build in
  their catch blocks, on the response they were given.\<close>

definition bad_request :: "response \<Rightarrow> string \<Rightarrow> response" where
  "bad_request r reason =
     set_field f_connection ''close''
       (SendJsonBody (r\<lparr>result := 400\<rparr>)
          (JObject [(''error'', JInt 400), (''status'', JString (''Bad Request: '' @ reason))]))"

text \<open>
  \<open>EnsureValidHeaders\<close>: \<open>Inr None\<close> is the return value false, \<open>Inr (Some h)\<close> is
  true with the parsed header. The inner handler turns a \<open>system_error\<close> into an
  \<open>invalid_argument\<close>; the outer one catches \<open>invalid_argument\<close> only.
\<close>

definition EnsureValidHeaders :: "parser \<Rightarrow> exchange \<Rightarrow> response \<Rightarrow> request option io" where
  "EnsureValidHeaders p x r =
     (let thrown =
        (case async_read_header p x of
           Inl (system_error c m) \<Rightarrow> Inl (invalid_argument (what (system_error c m)))
         | Inl e \<Rightarrow> Inl e
         | Inr h \<Rightarrow>
             if version h = 10 \<or> version h = 11 then Inr h
             else Inl (invalid_argument ''Unsupported HTTP version''))
      in case thrown of
           Inl (invalid_argument m) \<Rightarrow>
             (case write_and_flush x (bad_request r (what (invalid_argument m))) of
                (evs, Inl e) \<Rightarrow> (ReadHeader # evs, Inl e)
              | (evs, Inr u) \<Rightarrow> (ReadHeader # evs, Inr None))
         | Inl e \<Rightarrow> ([ReadHeader], Inl e)
         | Inr h \<Rightarrow> ([ReadHeader], Inr (Some h)))"

definition EnsureValidBody :: "parser \<Rightarrow> exchange \<Rightarrow> response \<Rightarrow> request option io" where
  "EnsureValidBody p x r =
     (case async_read p x of
        Inl (system_error c m) \<Rightarrow>
          (case write_and_flush x (bad_request r (what (system_error c m))) of
             (evs, Inl e) \<Rightarrow> (ReadBody # evs, Inl e)
           | (evs, Inr u) \<Rightarrow> (ReadBody # evs, Inr None))
      | Inl e \<Rightarrow> ([ReadBody], Inl e)
      | Inr h \<Rightarrow> ([ReadBody], Inr (Some h)))"

definition not_found_message :: "request \<Rightarrow> string" where
  "not_found_message r =
     ''The requested path '' @ [CHR 0x27] @ target r @ [CHR 0x27] @
     '' could not be found or the request method is not valid for this path.''"

text \<open>
  \<open>ProcessRequest\<close>: the try block holds the building of the 404 answer, whose
  outcome is \<open>handler_raises\<close>. \<open>forced_unwind\<close> is thrown on; for any
  \<open>std::exception\<close> the catch block declares a response of its own and writes that one.
\<close>

definition ProcessRequest :: "(exn \<Rightarrow> string) \<Rightarrow> exchange \<Rightarrow> request \<Rightarrow> response \<Rightarrow> unit io" where
  "ProcessRequest di x req r =
     (case handler_raises x of
        None \<Rightarrow> write_and_flush x (SendJsonError r 404 (not_found_message req) [])
      | Some ex \<Rightarrow>
          if \<not> is_std_exception ex then ([], Inl ex)
          else write_and_flush x
                 (SendJsonError empty_response 500 ''Unhandled exception'' (di ex)))"

text \<open>\<open>"Icinga/" + Application::GetAppVersion()\<close>; the version is the parameter.\<close>

definition l_ServerHeader :: "string \<Rightarrow> string" where
  "l_ServerHeader app_version = ''Icinga/'' @ app_version"

datatype step = Continue | Break

definition request_log :: "request \<Rightarrow> conn_event" where
  "request_log h =
     Logged (Log LogInformation ''DaemonControl''
       (''Request: '' @ method_string h @ '' '' @ target h @
        '', agent: '' @ field_value h f_user_agent @ '').''))"

text \<open>One pass through the body of the \<open>for (;;)\<close> of \<open>ProcessMessages\<close>.\<close>

definition exchange_step :: "(exn \<Rightarrow> string) \<Rightarrow> string \<Rightarrow> exchange \<Rightarrow> step io" where
  "exchange_step di app_version x =
     (let p = \<lparr>header_limit = 1024 * 1024, body_limit = 1024 * 1024\<rparr>;
          r = set_field f_server (l_ServerHeader app_version) empty_response
      in case EnsureValidHeaders p x r of
           (e1, Inl ex) \<Rightarrow> (e1, Inl ex)
         | (e1, Inr None) \<Rightarrow> (e1, Inr Break)
         | (e1, Inr (Some h)) \<Rightarrow>
             (case EnsureValidBody p x r of
                (e2, Inl ex) \<Rightarrow> (e1 @ request_log h # e2, Inl ex)
              | (e2, Inr None) \<Rightarrow> (e1 @ request_log h # e2, Inr Break)
              | (e2, Inr (Some req)) \<Rightarrow>
                  (case ProcessRequest di x req r of
                     (e3, Inl ex) \<Rightarrow> (e1 @ request_log h # e2 @ e3, Inl ex)
                   | (e3, Inr u) \<Rightarrow>
                       (e1 @ request_log h # e2 @ e3,
                        Inr (if version req \<noteq> 11 \<or> field_value req f_connection = ''close''
                             then Break else Continue)))))"

text \<open>The loop over the exchanges the peer takes part in. When they are used up the task
  stays suspended in the next read.\<close>

datatype loop_end = LoopBroke | LoopThrew exn | LoopWaiting

fun message_loop :: "(exn \<Rightarrow> string) \<Rightarrow> string \<Rightarrow> exchange list \<Rightarrow> conn_event list \<times> loop_end" where
  "message_loop di v [] = ([], LoopWaiting)"
| "message_loop di v (x # xs) =
     (case exchange_step di v x of
        (evs, Inl ex) \<Rightarrow> (evs, LoopThrew ex)
      | (evs, Inr Break) \<Rightarrow> (evs, LoopBroke)
      | (evs, Inr Continue) \<Rightarrow>
          (case message_loop di v xs of (evs', e) \<Rightarrow> (evs @ evs', e)))"

datatype task_end = TaskReturned | TaskUnwound exn | TaskSuspended

text \<open>The handlers around the loop: \<open>forced_unwind\<close> is thrown on, a
  \<open>std::exception\<close> is logged at the level chosen by the \<open>dynamic_cast\<close> and the
  comparison with \<open>l_EPipe\<close>.\<close>

definition logLevel :: "exn \<Rightarrow> severity" where
  "logLevel ex =
     (case ex of
        system_error c m \<Rightarrow> if c = l_EPipe then LogNotice else LogCritical
      | _ \<Rightarrow> LogCritical)"

definition on_exception :: "conn_event list \<Rightarrow> exn \<Rightarrow> conn_event list \<times> task_end" where
  "on_exception evs ex =
     (if \<not> is_std_exception ex then (evs, TaskUnwound ex)
      else (evs @ [Logged (Log (logLevel ex) ''DaemonControl''
                     (''Unhandled exception while processing HTTP request: '' @ what ex))],
            TaskReturned))"

definition ProcessMessages :: "(exn \<Rightarrow> string) \<Rightarrow> string \<Rightarrow> exchange list \<Rightarrow> conn_event list \<times> task_end" where
  "ProcessMessages di v xs =
     (case message_loop di v xs of
        (evs, LoopBroke) \<Rightarrow> (evs, TaskReturned)
      | (evs, LoopWaiting) \<Rightarrow> (evs, TaskSuspended)
      | (evs, LoopThrew ex) \<Rightarrow> on_exception evs ex)"


section \<open>The requests the server refuses, and sample exchanges\<close>

text \<open>
  The refusals the specification lists for the header stage: reading or parsing the header
  fails with a \<open>system_error\<close> (a syntax error and a transport error look the same), the
  header section or an announced body is larger than 1 MiB, or the version is neither 1.0
  nor 1.1.
\<close>

definition header_refused :: "exchange \<Rightarrow> bool" where
  "header_refused x =
     (case header_fault x of
        Some (system_error c m) \<Rightarrow> True
      | Some e \<Rightarrow> False
      | None \<Rightarrow>
          1048576 < header_bytes x \<or>
          (case content_length x of None \<Rightarrow> False | Some n \<Rightarrow> 1048576 < n) \<or>
          version (sent x) \<notin> {10, 11})"

definition header_accepted :: "exchange \<Rightarrow> bool" where
  "header_accepted x =
     (header_fault x = None \<and> header_bytes x \<le> 1048576 \<and>
      (case content_length x of None \<Rightarrow> True | Some n \<Rightarrow> n \<le> 1048576) \<and>
      version (sent x) \<in> {10, 11})"

text \<open>The refusals of the body stage: reading the body fails with a \<open>system_error\<close>, or
  the body is larger than 1 MiB.\<close>

definition body_refused :: "exchange \<Rightarrow> bool" where
  "body_refused x =
     (header_accepted x \<and>
      (case body_fault x of
         Some (system_error c m) \<Rightarrow> True
       | Some e \<Rightarrow> False
       | None \<Rightarrow> 1048576 < length (body (sent x))))"

definition body_accepted :: "exchange \<Rightarrow> bool" where
  "body_accepted x =
     (header_accepted x \<and> body_fault x = None \<and> length (body (sent x)) \<le> 1048576)"

text \<open>\<open>GET /nonexistent HTTP/1.1\<close> with \<open>Host: x\<close>, met by a healthy stream.\<close>

definition get_request :: request where
  "get_request = \<lparr>version = 11, method_string = ''GET'', target = ''/nonexistent'',
     header_fields = [(f_other ''Host'', ''x'')], body = []\<rparr>"

definition plain :: exchange where
  "plain = \<lparr>header_bytes = 39, content_length = None, sent = get_request,
     header_fault = None, body_fault = None, handler_raises = None,
     write_fault = None, flush_fault = None\<rparr>"

section \<open>Properties of the lifecycle manager\<close>

lemmas lifecycle_defs =
  Start_def Stop_def BeforeFork_def AfterFork_def destroy_def emit_def set_acceptor_def
  set_thread_def set_flag_def fresh_def closed_acceptor_def

lemma Start_inv:
  "lifecycle_inv p w \<Longrightarrow>
   (case Start d b w of Returns w' \<Rightarrow> lifecycle_inv p w'
    | Throws e w' \<Rightarrow> lifecycle_inv p w' | Terminates \<Rightarrow> True)"
  by (auto simp: lifecycle_inv_def lifecycle_defs Let_def)

lemma Stop_inv:
  "lifecycle_inv p w \<Longrightarrow>
   (case Stop w of Returns w' \<Rightarrow> lifecycle_inv p w'
    | Throws e w' \<Rightarrow> lifecycle_inv p w' | Terminates \<Rightarrow> True)"
  by (auto simp: lifecycle_inv_def lifecycle_defs Let_def)

lemma BeforeFork_inv:
  "lifecycle_inv p w \<Longrightarrow>
   (case BeforeFork w of Returns w' \<Rightarrow> lifecycle_inv True w'
    | Throws e w' \<Rightarrow> lifecycle_inv True w' | Terminates \<Rightarrow> True)"
  by (auto simp: lifecycle_inv_def lifecycle_defs Let_def)

lemma AfterFork_inv:
  "lifecycle_inv p w \<Longrightarrow>
   (case AfterFork b w of Returns w' \<Rightarrow> lifecycle_inv False w'
    | Throws e w' \<Rightarrow> lifecycle_inv False w' | Terminates \<Rightarrow> True)"
  by (auto simp: lifecycle_inv_def lifecycle_defs Let_def split: outcome.splits)

text \<open>The invariant travels along every sequence of calls, whatever each call's outcome.\<close>

lemma run_calls_inv:
  "lifecycle_inv p w \<Longrightarrow> run_calls d cs w = Some w' \<Longrightarrow> lifecycle_inv (fork_pending p cs) w'"
proof (induction cs arbitrary: p w)
  case Nil
  then show ?case by simp
next
  case (Cons c cs)
  show ?case
  proof (cases c)
    case (CallStart b)
    with Cons.prems Start_inv[OF Cons.prems(1), of d b] show ?thesis
      by (auto split: outcome.splits dest: Cons.IH)
  next
    case CallStop
    with Cons.prems Stop_inv[OF Cons.prems(1)] show ?thesis
      by (auto split: outcome.splits dest: Cons.IH)
  next
    case CallBeforeFork
    with Cons.prems BeforeFork_inv[OF Cons.prems(1)] show ?thesis
      by (auto split: outcome.splits dest: Cons.IH)
  next
    case (CallAfterFork b)
    with Cons.prems AfterFork_inv[OF Cons.prems(1), of b] show ?thesis
      by (auto split: outcome.splits dest: Cons.IH)
  qed
qed

lemma new_world_inv: "lifecycle_inv False new_world"
  by (simp add: lifecycle_inv_def new_world_def fresh_def closed_acceptor_def)

lemma started_eq:
  "started = \<lparr>obj = \<lparr>m_Acceptor = \<lparr>is_open = True, bound_path = Some ''/run/icinga2/icinga2.s'',
                 listening = True\<rparr>, m_Thread = True, m_WasRunningBeforeFork = True\<rparr>,
     fs = [''/run/icinga2/icinga2.s'' \<mapsto> 448],
     effects = [AcceptorOpen, Unlink ''/run/icinga2/icinga2.s'',
       AcceptorBind ''/run/icinga2/icinga2.s'', Chmod ''/run/icinga2/icinga2.s'' 448,
       AcceptorListen, SpawnAcceptLoop, ThreadLaunch]\<rparr>"
  by (simp add: started_def Start_def new_world_def socket_path_def emit_def set_acceptor_def
      set_thread_def set_flag_def fresh_def closed_acceptor_def Let_def)

lemma prepared_eq:
  "prepared = started\<lparr>obj := (obj started)\<lparr>m_Thread := False\<rparr>,
     effects := effects started @ [PostTerminate, ThreadJoin, NotifyFork fork_prepare]\<rparr>"
  by (simp add: prepared_def started_eq BeforeFork_def emit_def set_thread_def Let_def)

lemma run_started: "run_calls ''/run/icinga2'' [CallStart True] new_world = Some started"
  by (simp add: started_def new_world_def Start_def socket_path_def emit_def set_acceptor_def
      set_thread_def set_flag_def fresh_def closed_acceptor_def Let_def)

lemma run_prepared:
  "run_calls ''/run/icinga2'' [CallStart True, CallBeforeFork] new_world = Some prepared"
  by (simp add: prepared_eq started_eq new_world_def Start_def BeforeFork_def socket_path_def
      emit_def set_acceptor_def set_thread_def set_flag_def fresh_def closed_acceptor_def Let_def)

text \<open>
  C5. On a running service (flag set, thread joinable) \<open>BeforeFork\<close> posts the
  cancellation, joins the thread and notifies the execution context; the thread is then not
  joinable, the acceptor, the socket file and the flag are as before. After it,
  \<open>AfterFork(true)\<close> launches the thread again, and \<open>AfterFork(false)\<close> leaves the
  object in the state of a freshly constructed one.
\<close>

theorem fork_protocol:
  assumes "m_WasRunningBeforeFork (obj w)" and "m_Thread (obj w)"
  shows "BeforeFork w =
           Returns (w\<lparr>obj := (obj w)\<lparr>m_Thread := False\<rparr>,
                      effects := effects w @ [PostTerminate, ThreadJoin, NotifyFork fork_prepare]\<rparr>) \<and>
         (case BeforeFork w of
            Returns w1 \<Rightarrow>
              AfterFork True w1 =
                Returns (w\<lparr>effects := effects w1 @ [NotifyFork fork_parent, ThreadLaunch]\<rparr>) \<and>
              AfterFork False w1 =
                Returns (w\<lparr>obj := fresh,
                           effects := effects w1 @ NotifyFork fork_child #
                             (if is_open (m_Acceptor (obj w)) then [AcceptorClose] else []) @
                             [Destroy, Construct]\<rparr>)
          | _ \<Rightarrow> False)"
  using assms
  by (auto simp: BeforeFork_def AfterFork_def destroy_def emit_def set_thread_def
      set_acceptor_def Let_def)

theorem fork_protocol_witness:
  "m_WasRunningBeforeFork (obj started) \<and> m_Thread (obj started) \<and>
   BeforeFork started = Returns prepared \<and>
   AfterFork True prepared =
     Returns (started\<lparr>effects := effects prepared @ [NotifyFork fork_parent, ThreadLaunch]\<rparr>) \<and>
   AfterFork False prepared =
     Returns (started\<lparr>obj := fresh,
        effects := effects prepared @ [NotifyFork fork_child, AcceptorClose, Destroy, Construct]\<rparr>)"
proof -
  have flag: "m_WasRunningBeforeFork (obj started)" and thread: "m_Thread (obj started)"
    and sock: "is_open (m_Acceptor (obj started))"
    by (simp_all add: started_eq)
  have before: "BeforeFork started = Returns prepared"
    using fork_protocol [OF flag thread] by (simp add: prepared_eq)
  from fork_protocol [OF flag thread] show ?thesis
    unfolding before using flag thread sock before by simp
qed

text \<open>
  C7, as stated, fails: after \<open>Start\<close> and \<open>BeforeFork\<close> the thread is not joinable
  while the flag is set and the listening socket is open.
\<close>

theorem thread_iff_running_counterexample:
  "map_option thread_flag_socket
     (run_calls ''/run/icinga2'' [CallStart True, CallBeforeFork] new_world) =
   Some (False, True, True)"
  by (simp add: thread_flag_socket_def new_world_def Start_def BeforeFork_def socket_path_def
      emit_def set_acceptor_def set_thread_def set_flag_def fresh_def closed_acceptor_def Let_def)

text \<open>
  C7, amended. At every point reached by calls of \<open>Start\<close>, \<open>Stop\<close>,
  \<open>BeforeFork\<close> and \<open>AfterFork\<close> on a freshly constructed service, a joinable thread
  implies that the service is running (flag set, listening socket open); and outside the
  window between a \<open>BeforeFork\<close> and the next \<open>AfterFork\<close> the thread is joinable if
  and only if the flag is set.
\<close>

theorem thread_joinable_invariant:
  assumes "run_calls d cs new_world = Some w"
  shows "(m_Thread (obj w) \<longrightarrow>
            m_WasRunningBeforeFork (obj w) \<and> is_open (m_Acceptor (obj w))) \<and>
         (\<not> fork_pending False cs \<longrightarrow>
            m_Thread (obj w) = m_WasRunningBeforeFork (obj w))"
  using run_calls_inv [OF new_world_inv assms]
  by (auto simp: lifecycle_inv_def)

theorem thread_joinable_invariant_witness:
  "run_calls ''/run/icinga2'' [CallStart True, CallBeforeFork, CallAfterFork True] new_world =
     Some (started\<lparr>effects := effects prepared @ [NotifyFork fork_parent, ThreadLaunch]\<rparr>) \<and>
   \<not> fork_pending False [CallStart True, CallBeforeFork, CallAfterFork True] \<and>
   m_Thread (obj started) \<and> m_WasRunningBeforeFork (obj started) \<and>
   is_open (m_Acceptor (obj started))"
proof -
  have r: "run_calls ''/run/icinga2'' [CallStart True, CallBeforeFork, CallAfterFork True] new_world =
     Some (started\<lparr>effects := effects prepared @ [NotifyFork fork_parent, ThreadLaunch]\<rparr>)"
    by (simp add: started_eq prepared_eq new_world_def Start_def BeforeFork_def AfterFork_def
        socket_path_def emit_def set_acceptor_def set_thread_def set_flag_def fresh_def
        closed_acceptor_def Let_def)
  from thread_joinable_invariant [OF r] r show ?thesis
    by (simp add: started_eq)
qed

text \<open>
  C9, as stated, fails in its second half: destroying the object after \<open>BeforeFork\<close>,
  when the thread is not joinable, still closes the listening socket, through the destructor
  of \<open>m_Acceptor\<close>.
\<close>

theorem destroy_not_joinable_counterexample:
  "\<not> m_Thread (obj prepared) \<and>
   destroy prepared =
     Returns (prepared\<lparr>obj := (obj prepared)\<lparr>m_Acceptor := closed_acceptor\<rparr>,
                effects := effects prepared @ [AcceptorClose, Destroy]\<rparr>)"
  by (simp add: prepared_eq started_eq destroy_def emit_def set_acceptor_def)

text \<open>
  C9, amended. At every reached point, destroying the object while the thread is joinable
  performs the whole of \<open>Stop\<close> (flag cleared, cancellation posted, thread joined,
  listening socket closed, its path unlinked); destroying it while the thread is not
  joinable clears no flag, posts nothing, joins nothing and unlinks nothing, and only the
  acceptor's own destructor closes the listening socket if it is open.
\<close>

theorem destroy_stops_when_joinable:
  assumes "run_calls d cs new_world = Some w"
  shows "(m_Thread (obj w) \<longrightarrow>
            (let socket = (case bound_path (m_Acceptor (obj w)) of None \<Rightarrow> [] | Some p \<Rightarrow> p) in
             Stop w =
               Returns (w\<lparr>obj := \<lparr>m_Acceptor = closed_acceptor, m_Thread = False,
                                  m_WasRunningBeforeFork = False\<rparr>,
                          fs := (fs w)(socket := None),
                          effects := effects w @
                            [PostTerminate, ThreadJoin, AcceptorClose, Unlink socket]\<rparr>) \<and>
             destroy w =
               Returns (w\<lparr>obj := \<lparr>m_Acceptor = closed_acceptor, m_Thread = False,
                                  m_WasRunningBeforeFork = False\<rparr>,
                          fs := (fs w)(socket := None),
                          effects := effects w @
                            [PostTerminate, ThreadJoin, AcceptorClose, Unlink socket, Destroy]\<rparr>))) \<and>
         (\<not> m_Thread (obj w) \<longrightarrow>
            destroy w =
              Returns (if is_open (m_Acceptor (obj w))
                       then w\<lparr>obj := (obj w)\<lparr>m_Acceptor := closed_acceptor\<rparr>,
                              effects := effects w @ [AcceptorClose, Destroy]\<rparr>
                       else w\<lparr>effects := effects w @ [Destroy]\<rparr>))"
proof -
  from run_calls_inv [OF new_world_inv assms]
  have "m_Thread (obj w) \<longrightarrow> is_open (m_Acceptor (obj w))"
    by (auto simp: lifecycle_inv_def)
  then show ?thesis
    by (auto simp: destroy_def Stop_def emit_def set_acceptor_def set_thread_def set_flag_def
        closed_acceptor_def Let_def)
qed

theorem destroy_stops_when_joinable_witness:
  "run_calls ''/run/icinga2'' [CallStart True] new_world = Some started \<and>
   m_Thread (obj started) \<and>
   destroy started =
     Returns (started\<lparr>obj := fresh, fs := Map.empty,
        effects := effects started @
          [PostTerminate, ThreadJoin, AcceptorClose, Unlink ''/run/icinga2/icinga2.s'', Destroy]\<rparr>) \<and>
   run_calls ''/run/icinga2'' [] new_world = Some new_world \<and>
   \<not> m_Thread (obj new_world) \<and>
   destroy new_world = Returns (new_world\<lparr>effects := [Destroy]\<rparr>)"
proof -
  have r: "run_calls ''/run/icinga2'' [] new_world = Some new_world"
    by simp
  from destroy_stops_when_joinable [OF run_started]
       destroy_stops_when_joinable [OF r] run_started r
  show ?thesis
    by (simp add: started_eq fresh_def new_world_def closed_acceptor_def Let_def)
qed

text \<open>
  C10. With the flag false, \<open>BeforeFork\<close> and \<open>AfterFork\<close> return with the object and
  the socket files exactly as they were; the only effect of each is the fork notification
  to the execution context.
\<close>

theorem fork_hooks_when_stopped:
  "\<not> m_WasRunningBeforeFork (obj w) \<Longrightarrow>
   BeforeFork w = Returns (w\<lparr>effects := effects w @ [NotifyFork fork_prepare]\<rparr>) \<and>
   AfterFork parent w =
     Returns (w\<lparr>effects := effects w @ [NotifyFork (if parent then fork_parent else fork_child)]\<rparr>)"
  by (simp add: BeforeFork_def AfterFork_def emit_def Let_def)

theorem fork_hooks_when_stopped_witness:
  "\<not> m_WasRunningBeforeFork (obj new_world) \<and>
   BeforeFork new_world = Returns (new_world\<lparr>effects := [NotifyFork fork_prepare]\<rparr>) \<and>
   AfterFork False new_world = Returns (new_world\<lparr>effects := [NotifyFork fork_child]\<rparr>)"
  using fork_hooks_when_stopped [of new_world False]
  by (simp add: new_world_def fresh_def)


section \<open>Properties of the event-loop driver\<close>

lemma RunEventLoop_rethrows:
  "\<forall>e \<in> set es. is_std_exception e \<and> e \<noteq> TerminateDaemonControl \<Longrightarrow>
   RunEventLoop di (map run_throws es @ rs) =
     (concat (map (\<lambda>e. [Log LogCritical ''DaemonControl'' ''Exception during I/O operation!'',
                          Log LogDebug ''DaemonControl'' (''Exception during I/O operation: '' @ di e)]) es)
        @ fst (RunEventLoop di rs),
      snd (RunEventLoop di rs))"
  by (induction es) (auto simp: case_prod_beta)

lemma RunEventLoop_exit_cause:
  "snd (RunEventLoop di rs) = ThreadExited \<Longrightarrow>
   run_returns \<in> set rs \<or> run_throws TerminateDaemonControl \<in> set rs"
proof (induction rs)
  case Nil
  then show ?case by simp
next
  case (Cons r rs)
  then show ?case
    by (cases r) (auto simp: case_prod_beta split: if_splits)
qed

text \<open>
  C6, as stated, fails in what is logged: the entry at critical severity is a fixed
  message, and the diagnostic detail goes to a second entry at debug severity.
\<close>

theorem event_loop_driver_counterexample:
  "RunEventLoop what [run_throws (std_exception ''disk full''), run_returns] =
     ([Log LogCritical ''DaemonControl'' ''Exception during I/O operation!'',
       Log LogDebug ''DaemonControl'' ''Exception during I/O operation: disk full''],
      ThreadExited)"
  by simp

text \<open>
  C6, amended. As long as \<open>run()\<close> throws only \<open>std::exception\<close>s other than
  \<open>TerminateDaemonControl\<close>, the driver logs for each of them a fixed message at critical
  severity and its diagnostic detail at debug severity and calls \<open>run()\<close> again, so the
  thread does not end; it ends at the first normal return of \<open>run()\<close> or at the first
  \<open>TerminateDaemonControl\<close>, and it never ends normally without one of the two.
\<close>

theorem event_loop_driver:
  assumes "\<forall>e \<in> set es. is_std_exception e \<and> e \<noteq> TerminateDaemonControl"
  shows "RunEventLoop di (map run_throws es) =
           (concat (map (\<lambda>e. [Log LogCritical ''DaemonControl'' ''Exception during I/O operation!'',
                                Log LogDebug ''DaemonControl''
                                  (''Exception during I/O operation: '' @ di e)]) es),
            ThreadInRun) \<and>
         RunEventLoop di (map run_throws es @ run_returns # rs) =
           (concat (map (\<lambda>e. [Log LogCritical ''DaemonControl'' ''Exception during I/O operation!'',
                                Log LogDebug ''DaemonControl''
                                  (''Exception during I/O operation: '' @ di e)]) es),
            ThreadExited) \<and>
         RunEventLoop di (map run_throws es @ run_throws TerminateDaemonControl # rs) =
           (concat (map (\<lambda>e. [Log LogCritical ''DaemonControl'' ''Exception during I/O operation!'',
                                Log LogDebug ''DaemonControl''
                                  (''Exception during I/O operation: '' @ di e)]) es),
            ThreadExited) \<and>
         (snd (RunEventLoop di rs) = ThreadExited \<longrightarrow>
            run_returns \<in> set rs \<or> run_throws TerminateDaemonControl \<in> set rs)"
  using RunEventLoop_rethrows [OF assms, of di "[]"]
        RunEventLoop_rethrows [OF assms, of di "run_returns # rs"]
        RunEventLoop_rethrows [OF assms, of di "run_throws TerminateDaemonControl # rs"]
        RunEventLoop_exit_cause [of di rs]
  by simp

theorem event_loop_driver_witness:
  "is_std_exception (std_exception ''disk full'') \<and>
   std_exception ''disk full'' \<noteq> TerminateDaemonControl \<and>
   is_std_exception (system_error l_EPipe ''Broken pipe'') \<and>
   system_error l_EPipe ''Broken pipe'' \<noteq> TerminateDaemonControl \<and>
   RunEventLoop what [run_throws (std_exception ''disk full''),
                      run_throws (system_error l_EPipe ''Broken pipe'')] =
     ([Log LogCritical ''DaemonControl'' ''Exception during I/O operation!'',
       Log LogDebug ''DaemonControl'' ''Exception during I/O operation: disk full'',
       Log LogCritical ''DaemonControl'' ''Exception during I/O operation!'',
       Log LogDebug ''DaemonControl'' ''Exception during I/O operation: Broken pipe''],
      ThreadInRun) \<and>
   snd (RunEventLoop what [run_throws (std_exception ''disk full''),
                           run_throws (system_error l_EPipe ''Broken pipe''),
                           run_throws TerminateDaemonControl, run_returns]) = ThreadExited \<and>
   snd (RunEventLoop what [run_returns]) = ThreadExited \<and>
   run_returns \<in> set [run_returns]"
proof -
  have h: "\<forall>e \<in> set [std_exception ''disk full'', system_error l_EPipe ''Broken pipe''].
      is_std_exception e \<and> e \<noteq> TerminateDaemonControl"
    by simp
  from event_loop_driver [OF h, of what "[run_returns]"] show ?thesis
    by simp
qed

section \<open>Properties of the connection task\<close>

lemma request_log_body [simp]: "request_log (h\<lparr>body := b\<rparr>) = request_log h"
  by (simp add: request_log_def field_value_def)

lemma served_response:
  "bad_request (set_field f_server s empty_response) reason =
     \<lparr>result = 400, rfields = [(f_connection, ''close''), (f_server, s)],
      rbody = Some (JObject [(''error'', JInt 400),
                (''status'', JString (''Bad Request: '' @ reason))])\<rparr>"
  by (simp add: bad_request_def set_field_def empty_response_def SendJsonBody_def)

lemma header_refused_step:
  assumes "header_refused x"
  shows "\<exists>reason. EnsureValidHeaders \<lparr>header_limit = 1048576, body_limit = 1048576\<rparr> x r =
           (case write_and_flush x (bad_request r reason) of
              (evs, Inl e) \<Rightarrow> (ReadHeader # evs, Inl e)
            | (evs, Inr u) \<Rightarrow> (ReadHeader # evs, Inr None))"
  using assms
  by (auto simp: header_refused_def EnsureValidHeaders_def async_read_header_def
      header_limit_error_def body_limit_error_def
      split: option.splits exn.splits)

lemma header_accepted_step:
  assumes "header_accepted x"
  shows "EnsureValidHeaders \<lparr>header_limit = 1048576, body_limit = 1048576\<rparr> x r =
           ([ReadHeader], Inr (Some ((sent x)\<lparr>body := []\<rparr>)))"
  using assms
  by (auto simp: header_accepted_def EnsureValidHeaders_def async_read_header_def
      split: option.splits)

lemma body_refused_step:
  assumes "body_refused x"
  shows "\<exists>reason. EnsureValidBody \<lparr>header_limit = 1048576, body_limit = 1048576\<rparr> x r =
           (case write_and_flush x (bad_request r reason) of
              (evs, Inl e) \<Rightarrow> (ReadBody # evs, Inl e)
            | (evs, Inr u) \<Rightarrow> (ReadBody # evs, Inr None))"
  using assms
  by (auto simp: body_refused_def EnsureValidBody_def async_read_def body_limit_error_def
      split: option.splits exn.splits)

lemma body_accepted_step:
  assumes "body_accepted x"
  shows "EnsureValidBody \<lparr>header_limit = 1048576, body_limit = 1048576\<rparr> x r =
           ([ReadBody], Inr (Some (sent x)))"
  using assms
  by (auto simp: body_accepted_def EnsureValidBody_def async_read_def split: option.splits)

lemmas connection_defs =
  exchange_step_def EnsureValidHeaders_def EnsureValidBody_def ProcessRequest_def
  async_read_header_def async_read_def write_and_flush_def

text \<open>
  C1. When the header or the body of a request is refused (a \<open>system_error\<close> while
  reading or parsing, more than 1 MiB, or a version other than 1.0 and 1.1), the task writes
  the 400 answer with the body \<open>{error: 400, status: "Bad Request: <reason>"}\<close>, with
  \<open>Connection: close\<close> and the server header, flushes it, and leaves the loop without
  reading any later exchange; if the write or the flush throws, the loop ends with that
  exception.
\<close>

theorem bad_request_ends_connection:
  assumes "header_refused x \<or> body_refused x"
  shows "\<exists>reason.
           message_loop di v (x # xs) =
             (let pre = (if header_refused x then [ReadHeader]
                         else [ReadHeader, request_log (sent x), ReadBody]);
                  r = \<lparr>result = 400,
                       rfields = [(f_connection, ''close''), (f_server, l_ServerHeader v)],
                       rbody = Some (JObject [(''error'', JInt 400),
                                 (''status'', JString (''Bad Request: '' @ reason))])\<rparr>
              in case write_fault x of
                   Some e \<Rightarrow> (pre @ [Write r], LoopThrew e)
                 | None \<Rightarrow>
                     (case flush_fault x of
                        Some e \<Rightarrow> (pre @ [Write r, Flush], LoopThrew e)
                      | None \<Rightarrow> (pre @ [Write r, Flush], LoopBroke)))"
proof (cases "header_refused x")
  case True
  from header_refused_step [OF True]
  obtain reason where
    "EnsureValidHeaders \<lparr>header_limit = 1048576, body_limit = 1048576\<rparr> x
       (set_field f_server (l_ServerHeader v) empty_response) =
     (case write_and_flush x
             (bad_request (set_field f_server (l_ServerHeader v) empty_response) reason) of
        (evs, Inl e) \<Rightarrow> (ReadHeader # evs, Inl e)
      | (evs, Inr u) \<Rightarrow> (ReadHeader # evs, Inr None))"
    by blast
  with True show ?thesis
    by (intro exI [of _ reason])
       (simp add: exchange_step_def served_response write_and_flush_def Let_def
          split: option.splits)
next
  case False
  with assms have b: "body_refused x" by simp
  then have h: "header_accepted x" by (simp add: body_refused_def)
  from body_refused_step [OF b]
  obtain reason where
    "EnsureValidBody \<lparr>header_limit = 1048576, body_limit = 1048576\<rparr> x
       (set_field f_server (l_ServerHeader v) empty_response) =
     (case write_and_flush x
             (bad_request (set_field f_server (l_ServerHeader v) empty_response) reason) of
        (evs, Inl e) \<Rightarrow> (ReadBody # evs, Inl e)
      | (evs, Inr u) \<Rightarrow> (ReadBody # evs, Inr None))"
    by blast
  with False show ?thesis
    by (intro exI [of _ reason])
       (simp add: exchange_step_def header_accepted_step [OF h] served_response
          write_and_flush_def Let_def split: option.splits)
qed

theorem bad_request_ends_connection_witness:
  "header_refused (plain\<lparr>header_bytes := 2000000\<rparr>) \<and>
   body_refused (plain\<lparr>body_fault := Some (system_error (ErrorCode 104 system_category)
                                            ''Connection reset by peer'')\<rparr>) \<and>
   (\<exists>reason.
      message_loop what ''2.11'' [plain\<lparr>header_bytes := 2000000\<rparr>, plain] =
        ([ReadHeader,
          Write \<lparr>result = 400,
                 rfields = [(f_connection, ''close''), (f_server, ''Icinga/2.11'')],
                 rbody = Some (JObject [(''error'', JInt 400),
                           (''status'', JString (''Bad Request: '' @ reason))])\<rparr>,
          Flush], LoopBroke)) \<and>
   (\<exists>reason.
      message_loop what ''2.11''
        [plain\<lparr>body_fault := Some (system_error (ErrorCode 104 system_category)
                                     ''Connection reset by peer'')\<rparr>, plain] =
        ([ReadHeader, request_log get_request, ReadBody,
          Write \<lparr>result = 400,
                 rfields = [(f_connection, ''close''), (f_server, ''Icinga/2.11'')],
                 rbody = Some (JObject [(''error'', JInt 400),
                           (''status'', JString (''Bad Request: '' @ reason))])\<rparr>,
          Flush], LoopBroke))"
proof -
  have h: "header_refused (plain\<lparr>header_bytes := 2000000\<rparr>)"
    by (simp add: header_refused_def plain_def)
  have b: "body_refused (plain\<lparr>body_fault := Some (system_error (ErrorCode 104 system_category)
                                            ''Connection reset by peer'')\<rparr>)"
    by (simp add: body_refused_def header_accepted_def plain_def get_request_def)
  have nh: "\<not> header_refused (plain\<lparr>body_fault := Some (system_error (ErrorCode 104 system_category)
                                            ''Connection reset by peer'')\<rparr>)"
    by (simp add: header_refused_def plain_def get_request_def)
  from bad_request_ends_connection [OF disjI1 [OF h], of what "''2.11''" "[plain]"]
       bad_request_ends_connection [OF disjI2 [OF b], of what "''2.11''" "[plain]"]
       h b nh
  show ?thesis
    by (simp add: plain_def l_ServerHeader_def)
qed

text \<open>
  C2. After the response to a request that passed both checks has been written and
  flushed, the loop goes on to the next exchange if and only if the request has version 1.1
  and its \<open>Connection\<close> field is not \<open>close\<close>; otherwise it stops.
\<close>

theorem keep_alive_decision:
  assumes "body_accepted x" and "handler_raises x \<noteq> Some forced_unwind"
    and "write_fault x = None" and "flush_fault x = None"
  shows "message_loop di v (x # xs) =
           (let r = (case handler_raises x of
                       None \<Rightarrow>
                         SendJsonError (set_field f_server (l_ServerHeader v) empty_response)
                           404 (not_found_message (sent x)) []
                     | Some ex \<Rightarrow>
                         SendJsonError empty_response 500 ''Unhandled exception'' (di ex));
                evs = [ReadHeader, request_log (sent x), ReadBody, Write r, Flush]
            in if version (sent x) = 11 \<and> field_value (sent x) f_connection \<noteq> ''close''
               then (evs @ fst (message_loop di v xs), snd (message_loop di v xs))
               else (evs, LoopBroke))"
proof -
  from assms(1) have h: "header_accepted x" by (simp add: body_accepted_def)
  from assms(2) have std: "\<And>ex. handler_raises x = Some ex \<Longrightarrow> is_std_exception ex"
    by (case_tac ex) auto
  show ?thesis
    using assms(3,4) std
    by (auto simp: exchange_step_def header_accepted_step [OF h]
        body_accepted_step [OF assms(1)] ProcessRequest_def write_and_flush_def Let_def
        case_prod_beta split: option.splits)
qed

theorem keep_alive_decision_witness:
  "body_accepted plain \<and> handler_raises plain \<noteq> Some forced_unwind \<and>
   write_fault plain = None \<and> flush_fault plain = None \<and>
   version (sent plain) = 11 \<and> field_value (sent plain) f_connection \<noteq> ''close'' \<and>
   message_loop what ''2.11'' [plain, plain\<lparr>sent := get_request\<lparr>version := 10\<rparr>\<rparr>, plain] =
     ([ReadHeader, request_log get_request, ReadBody,
       Write (SendJsonError (set_field f_server ''Icinga/2.11'' empty_response) 404
                (not_found_message get_request) []),
       Flush,
       ReadHeader, request_log (get_request\<lparr>version := 10\<rparr>), ReadBody,
       Write (SendJsonError (set_field f_server ''Icinga/2.11'' empty_response) 404
                (not_found_message (get_request\<lparr>version := 10\<rparr>)) []),
       Flush], LoopBroke)"
proof -
  have a: "body_accepted plain" "handler_raises plain \<noteq> Some forced_unwind"
    "write_fault plain = None" "flush_fault plain = None"
    by (simp_all add: body_accepted_def header_accepted_def plain_def get_request_def)
  have b: "body_accepted (plain\<lparr>sent := get_request\<lparr>version := 10\<rparr>\<rparr>)"
    "handler_raises (plain\<lparr>sent := get_request\<lparr>version := 10\<rparr>\<rparr>) \<noteq> Some forced_unwind"
    "write_fault (plain\<lparr>sent := get_request\<lparr>version := 10\<rparr>\<rparr>) = None"
    "flush_fault (plain\<lparr>sent := get_request\<lparr>version := 10\<rparr>\<rparr>) = None"
    by (simp_all add: body_accepted_def header_accepted_def plain_def get_request_def)
  have c: "version (sent plain) = 11" "field_value (sent plain) f_connection \<noteq> ''close''"
    by (simp_all add: plain_def get_request_def field_value_def)
  have d: "sent plain = get_request" "handler_raises plain = None"
    by (simp_all add: plain_def)
  from keep_alive_decision [OF a, of what "''2.11''"
         "[plain\<lparr>sent := get_request\<lparr>version := 10\<rparr>\<rparr>, plain]"]
       keep_alive_decision [OF b, of what "''2.11''" "[plain]"]
  show ?thesis
    using a c d by (simp add: l_ServerHeader_def Let_def)
qed

text \<open>
  C3. When building the answer to a fully parsed request raises a \<open>std::exception\<close>,
  the exception goes no further: a 500 answer whose JSON body carries the diagnostic detail
  is written and flushed, and if both succeed the loop continues or stops by the same
  keep-alive decision as after any other answer; a failing write or flush ends the loop
  with its own exception.
\<close>

theorem handler_failure_answered:
  assumes "body_accepted x" and "handler_raises x = Some ex" and "is_std_exception ex"
  shows "message_loop di v (x # xs) =
           (let pre = [ReadHeader, request_log (sent x), ReadBody];
                r = \<lparr>result = 500, rfields = [],
                     rbody = Some (JObject ([(''error'', JInt 500),
                               (''status'', JString ''Unhandled exception'')] @
                               (if di ex = [] then []
                                else [(''diagnostic_information'', JString (di ex))])))\<rparr>
            in case write_fault x of
                 Some e \<Rightarrow> (pre @ [Write r], LoopThrew e)
               | None \<Rightarrow>
                   (case flush_fault x of
                      Some e \<Rightarrow> (pre @ [Write r, Flush], LoopThrew e)
                    | None \<Rightarrow>
                        if version (sent x) = 11 \<and>
                           field_value (sent x) f_connection \<noteq> ''close''
                        then (pre @ [Write r, Flush] @ fst (message_loop di v xs),
                              snd (message_loop di v xs))
                        else (pre @ [Write r, Flush], LoopBroke)))"
proof -
  from assms(1) have h: "header_accepted x" by (simp add: body_accepted_def)
  show ?thesis
    using assms(2,3)
    by (auto simp: exchange_step_def header_accepted_step [OF h]
        body_accepted_step [OF assms(1)] ProcessRequest_def write_and_flush_def Let_def
        SendJsonError_def SendJsonBody_def empty_response_def
        case_prod_beta split: option.splits)
qed

theorem handler_failure_answered_witness:
  "body_accepted (plain\<lparr>handler_raises := Some (std_exception ''bad_alloc'')\<rparr>) \<and>
   is_std_exception (std_exception ''bad_alloc'') \<and>
   message_loop what ''2.11'' [plain\<lparr>handler_raises := Some (std_exception ''bad_alloc'')\<rparr>] =
     ([ReadHeader, request_log get_request, ReadBody,
       Write \<lparr>result = 500, rfields = [],
              rbody = Some (JObject [(''error'', JInt 500),
                        (''status'', JString ''Unhandled exception''),
                        (''diagnostic_information'', JString ''bad_alloc'')])\<rparr>,
       Flush], LoopWaiting)"
proof -
  have a: "body_accepted (plain\<lparr>handler_raises := Some (std_exception ''bad_alloc'')\<rparr>)"
    by (simp add: body_accepted_def header_accepted_def plain_def get_request_def)
  have b: "handler_raises (plain\<lparr>handler_raises := Some (std_exception ''bad_alloc'')\<rparr>) =
             Some (std_exception ''bad_alloc'')"
    by simp
  have c: "is_std_exception (std_exception ''bad_alloc'')"
    by simp
  from handler_failure_answered [OF a b c, of what "''2.11''" "[]"] a
  show ?thesis
    by (simp add: plain_def get_request_def field_value_def)
qed

text \<open>
  C4 does not hold of the code: the 500 answer is a response declared in the catch block of
  \<open>ProcessRequest\<close>, and it is written without the \<open>Server\<close> field that the 404 answer
  of the same request carries.
\<close>

theorem server_header_missing_on_500:
  "message_loop what ''2.11'' [plain\<lparr>handler_raises := Some (std_exception ''bad_alloc'')\<rparr>] =
     ([ReadHeader, request_log get_request, ReadBody,
       Write (SendJsonError empty_response 500 ''Unhandled exception'' ''bad_alloc''),
       Flush], LoopWaiting) \<and>
   get_field (SendJsonError empty_response 500 ''Unhandled exception'' ''bad_alloc'') f_server
     = None \<and>
   message_loop what ''2.11'' [plain] =
     ([ReadHeader, request_log get_request, ReadBody,
       Write (SendJsonError (set_field f_server ''Icinga/2.11'' empty_response) 404
                (not_found_message get_request) []),
       Flush], LoopWaiting) \<and>
   get_field (SendJsonError (set_field f_server ''Icinga/2.11'' empty_response) 404
                (not_found_message get_request) []) f_server = Some ''Icinga/2.11''"
  by (simp add: connection_defs plain_def get_request_def l_ServerHeader_def get_field_def
      field_value_def SendJsonError_def SendJsonBody_def empty_response_def set_field_def Let_def)

text \<open>
  C8. An exception that leaves the loop ends the task. \<open>forced_unwind\<close> is thrown on and
  nothing is logged; for every other exception exactly one line is logged, at notice
  severity if and only if it is a \<open>system_error\<close> with the code of a broken pipe, at
  critical severity otherwise.
\<close>

theorem connection_failure_logging:
  assumes "message_loop di v xs = (evs, LoopThrew ex)"
  shows "ProcessMessages di v xs =
           (if ex = forced_unwind then (evs, TaskUnwound forced_unwind)
            else (evs @ [Logged (Log (if \<exists>m. ex = system_error l_EPipe m
                                       then LogNotice else LogCritical)
                           ''DaemonControl''
                           (''Unhandled exception while processing HTTP request: '' @ what ex))],
                  TaskReturned))"
  using assms
  by (cases ex) (auto simp: ProcessMessages_def on_exception_def logLevel_def)

theorem connection_failure_logging_witness:
  "ProcessMessages what ''2.11''
     [plain\<lparr>write_fault := Some (system_error l_EPipe ''Broken pipe'')\<rparr>] =
     ([ReadHeader, request_log get_request, ReadBody,
       Write (SendJsonError (set_field f_server ''Icinga/2.11'' empty_response) 404
                (not_found_message get_request) []),
       Logged (Log LogNotice ''DaemonControl''
         ''Unhandled exception while processing HTTP request: Broken pipe'')],
      TaskReturned) \<and>
   ProcessMessages what ''2.11''
     [plain\<lparr>flush_fault := Some (system_error (ErrorCode 104 system_category)
                                    ''Connection reset by peer'')\<rparr>] =
     ([ReadHeader, request_log get_request, ReadBody,
       Write (SendJsonError (set_field f_server ''Icinga/2.11'' empty_response) 404
                (not_found_message get_request) []),
       Flush,
       Logged (Log LogCritical ''DaemonControl''
         ''Unhandled exception while processing HTTP request: Connection reset by peer'')],
      TaskReturned) \<and>
   ProcessMessages what ''2.11'' [plain\<lparr>body_fault := Some forced_unwind\<rparr>] =
     ([ReadHeader, request_log get_request, ReadBody], TaskUnwound forced_unwind)"
proof -
  have r1: "message_loop what ''2.11''
     [plain\<lparr>write_fault := Some (system_error l_EPipe ''Broken pipe'')\<rparr>] =
     ([ReadHeader, request_log get_request, ReadBody,
       Write (SendJsonError (set_field f_server ''Icinga/2.11'' empty_response) 404
                (not_found_message get_request) [])],
      LoopThrew (system_error l_EPipe ''Broken pipe''))"
    by (simp add: connection_defs plain_def get_request_def l_ServerHeader_def
        field_value_def Let_def)
  have r2: "message_loop what ''2.11''
     [plain\<lparr>flush_fault := Some (system_error (ErrorCode 104 system_category)
                                    ''Connection reset by peer'')\<rparr>] =
     ([ReadHeader, request_log get_request, ReadBody,
       Write (SendJsonError (set_field f_server ''Icinga/2.11'' empty_response) 404
                (not_found_message get_request) []),
       Flush],
      LoopThrew (system_error (ErrorCode 104 system_category) ''Connection reset by peer''))"
    by (simp add: connection_defs plain_def get_request_def l_ServerHeader_def
        field_value_def Let_def)
  have r3: "message_loop what ''2.11'' [plain\<lparr>body_fault := Some forced_unwind\<rparr>] =
     ([ReadHeader, request_log get_request, ReadBody], LoopThrew forced_unwind)"
    by (simp add: connection_defs plain_def get_request_def l_ServerHeader_def
        field_value_def Let_def)
  from connection_failure_logging [OF r1] connection_failure_logging [OF r2]
       connection_failure_logging [OF r3]
  show ?thesis
    by (simp add: l_EPipe_def)
qed

end
